theory Spec2Isabelle
  imports Main
begin

section \<open>The distributed-image storage handle of pilib (distributedimage.h)\<close>

text \<open>
  The header declares \<open>DistributedImageBase\<close>, the untyped storage handle, and the
  template \<open>DistributedImage<pixel_t>\<close>, the typed wrapper with the whole-image
  transfers \<open>readTo\<close> and \<open>setData\<close>. Member functions defined in the header are
  translated line by line. Member functions that the header only declares
  (\<open>createTempFilenames\<close>, \<open>setReadSource\<close>, \<open>ensureSize\<close>, \<open>emitReadBlock\<close>,
  \<open>emitWriteBlock\<close>) and the helpers of other headers (\<open>endsWith\<close>, \<open>itl2::Image\<close>,
  the \<open>raw\<close> and \<open>sequence\<close> codecs) are modelled from the specification; each such
  definition says so.
\<close>

subsection \<open>Data\<close>

text \<open>
  \<open>Vec3c\<close> is a triple of \<open>coord_t\<close>, a signed integer type declared outside the header.
  No arithmetic of the handle that could overflow is used below, so the components are
  integers.
\<close>

datatype Vec3c = Vec3c (vx: int) (vy: int) (vz: int)

text \<open>The private members of \<open>DistributedImageBase\<close>, in the order of the header.\<close>

record DistributedImageBase =
  dims :: Vec3c
  name :: string
  readSource :: string
  writeTarget :: string
  tempFilename1 :: string
  tempFilename2 :: string
  isNewImage :: bool
  dataTypeStr :: string

text \<open>
  Modelled from the spec: \<open>itl2::Image<pixel_t>\<close> (image.h) is not part of the header.
  An in-memory buffer has dimensions and pixel contents; \<open>Image::ensureSize\<close> keeps a
  buffer that already has the requested dimensions and otherwise reallocates it to the
  requested size with zeroed contents.
\<close>

record 'p Image =
  idims :: Vec3c
  pixels :: "'p list"

definition Image_ensureSize :: "Vec3c \<Rightarrow> ('p::zero) Image \<Rightarrow> 'p Image" where
  "Image_ensureSize d img =
     (if idims img = d then img
      else \<lparr>idims = d, pixels = replicate (nat (vx d * vy d * vz d)) 0\<rparr>)"

text \<open>
  Modelled from the spec: the codecs \<open>raw::read\<close>, \<open>raw::write\<close>, \<open>sequence::read\<close> and
  \<open>sequence::write\<close> (io/raw.h and the sequence reader) are external. The disk maps a
  path to what a codec stored there: a flat binary file or a directory of slices. A
  codec writes faithfully; it reads back what the same codec family stored under the
  path into a buffer of the stored dimensions, and reports an error for a missing path,
  for data of the other family and for a buffer of other dimensions.
\<close>

datatype 'p stored = RawFile "'p Image" | SequenceDir "'p Image"

type_synonym 'p disk = "string \<rightharpoonup> 'p stored"

datatype io_error = ReadFailed string

definition raw_write :: "'p Image \<Rightarrow> string \<Rightarrow> 'p disk \<Rightarrow> 'p disk" where
  "raw_write img filename dsk = dsk(filename \<mapsto> RawFile img)"

definition sequence_write :: "'p Image \<Rightarrow> string \<Rightarrow> 'p disk \<Rightarrow> 'p disk" where
  "sequence_write img filename dsk = dsk(filename \<mapsto> SequenceDir img)"

definition raw_read :: "'p Image \<Rightarrow> string \<Rightarrow> 'p disk \<Rightarrow> io_error + 'p Image" where
  "raw_read img filename dsk =
     (case dsk filename of
        Some (RawFile st) \<Rightarrow>
          if idims st = idims img then Inr (img\<lparr>pixels := pixels st\<rparr>)
          else Inl (ReadFailed filename)
      | Some (SequenceDir st) \<Rightarrow> Inl (ReadFailed filename)
      | None \<Rightarrow> Inl (ReadFailed filename))"

definition sequence_read :: "'p Image \<Rightarrow> string \<Rightarrow> 'p disk \<Rightarrow> io_error + 'p Image" where
  "sequence_read img filename dsk =
     (case dsk filename of
        Some (SequenceDir st) \<Rightarrow>
          if idims st = idims img then Inr (img\<lparr>pixels := pixels st\<rparr>)
          else Inl (ReadFailed filename)
      | Some (RawFile st) \<Rightarrow> Inl (ReadFailed filename)
      | None \<Rightarrow> Inl (ReadFailed filename))"

text \<open>
  Modelled from the spec: \<open>endsWith\<close> (stringutils.h) is not part of the header. The
  format queries are "derived from whether the name matches the flat-binary-file
  convention", which the header tests as \<open>endsWith(..., ".raw")\<close>: the suffix test on
  strings.
\<close>

definition endsWith :: "string \<Rightarrow> string \<Rightarrow> bool" where
  "endsWith str e = (length e \<le> length str \<and> drop (length str - length e) str = e)"

subsection \<open>DistributedImageBase\<close>

text \<open>
  Modelled from the spec: \<open>setReadSource\<close> is declared in the header and defined
  elsewhere. It "rebinds readSource" and "updates isNewImage to false once a non-empty
  source is bound". The constructor calls it on a handle whose \<open>isNewImage\<close> member has
  no initializer, and the spec gives \<open>isNewImage = true\<close> after construction without a
  source and \<open>false\<close> after construction with one, so the flag is assigned in both cases.
\<close>

definition setReadSource :: "string \<Rightarrow> DistributedImageBase \<Rightarrow> DistributedImageBase" where
  "setReadSource filename h = h\<lparr>readSource := filename, isNewImage := (filename = [])\<rparr>"

text \<open>
  Modelled from the spec: \<open>createTempFilenames\<close> is declared in the header and defined
  elsewhere. The two scratch locations are "allocated once at construction" and
  \<open>writeTarget\<close> "is always exactly one of" them. The generated names are the parameters
  \<open>t1\<close> and \<open>t2\<close> of the model; the write target starts at the first.
\<close>

definition createTempFilenames ::
  "string \<Rightarrow> string \<Rightarrow> DistributedImageBase \<Rightarrow> DistributedImageBase" where
  "createTempFilenames t1 t2 h = h\<lparr>tempFilename1 := t1, tempFilename2 := t2, writeTarget := t1\<rparr>"

text \<open>
  The constructor that points to a file: the member initializers, then
  \<open>setReadSource(sourceFilename); createTempFilenames();\<close>. The string members outside
  the initializer list start empty.
\<close>

definition DistributedImageBase_ctor ::
  "string \<Rightarrow> string \<Rightarrow> string \<Rightarrow> int \<Rightarrow> int \<Rightarrow> int \<Rightarrow> string \<Rightarrow> string \<Rightarrow> DistributedImageBase" where
  "DistributedImageBase_ctor t1 t2 nm w ht d dts sourceFilename =
     createTempFilenames t1 t2
       (setReadSource sourceFilename
          \<lparr>dims = Vec3c w ht d, name = nm, readSource = [], writeTarget = [],
           tempFilename1 = [], tempFilename2 = [], isNewImage = False, dataTypeStr = dts\<rparr>)"

text \<open>The constructor without a source delegates with the empty file name.\<close>

definition DistributedImageBase_ctor0 ::
  "string \<Rightarrow> string \<Rightarrow> string \<Rightarrow> int \<Rightarrow> int \<Rightarrow> int \<Rightarrow> string \<Rightarrow> DistributedImageBase" where
  "DistributedImageBase_ctor0 t1 t2 nm w ht d dts =
     DistributedImageBase_ctor t1 t2 nm w ht d dts []"

definition isSavedToDisk :: "DistributedImageBase \<Rightarrow> bool" where
  "isSavedToDisk h = (\<not> isNewImage h)"

definition dimensions :: "DistributedImageBase \<Rightarrow> Vec3c" where
  "dimensions h = dims h"

definition writeComplete :: "DistributedImageBase \<Rightarrow> DistributedImageBase" where
  "writeComplete h = setReadSource (writeTarget h) h"

definition currentReadSource :: "DistributedImageBase \<Rightarrow> string" where
  "currentReadSource h = readSource h"

definition currentWriteTarget :: "DistributedImageBase \<Rightarrow> string" where
  "currentWriteTarget h = writeTarget h"

definition newWriteTarget :: "DistributedImageBase \<Rightarrow> DistributedImageBase" where
  "newWriteTarget h =
     (if writeTarget h = tempFilename1 h then h\<lparr>writeTarget := tempFilename2 h\<rparr>
      else h\<lparr>writeTarget := tempFilename1 h\<rparr>)"

definition savedToTemp :: "DistributedImageBase \<Rightarrow> bool" where
  "savedToTemp h =
     (currentReadSource h = tempFilename1 h \<or> currentReadSource h = tempFilename2 h)"

definition varName :: "DistributedImageBase \<Rightarrow> string" where
  "varName h = name h"

definition isRaw :: "DistributedImageBase \<Rightarrow> bool" where
  "isRaw h = endsWith (currentReadSource h) ''.raw''"

definition isSequence :: "DistributedImageBase \<Rightarrow> bool" where
  "isSequence h = (\<not> isRaw h)"

text \<open>
  Modelled from the spec: \<open>ensureSize\<close> is declared in the header and defined elsewhere.
  It "declares that subsequent operations should treat the image as having newDims".
  The temp locations are "allocated once at construction" and keep the format of the
  source that first established the handle, so re-deriving them leaves them as they
  are: the model changes the dimensions only.
\<close>

definition ensureSize :: "Vec3c \<Rightarrow> DistributedImageBase \<Rightarrow> DistributedImageBase" where
  "ensureSize newDimensions h = h\<lparr>dims := newDimensions\<rparr>"

text \<open>
  Modelled from the spec: \<open>emitReadBlock\<close> and \<open>emitWriteBlock\<close> are declared in the
  header and defined elsewhere. They return "opaque instruction fragments referencing
  the handle's name, a file path, a position, and a size"; the text of a fragment is
  the external encoder's, the parameter \<open>enc\<close>. A read instruction loads the block from
  \<open>readSource\<close>, and is a no-op placeholder when the data is not needed. A write
  instruction goes to \<open>writeTarget\<close> when \<open>outputFile\<close> is null and to the given file
  otherwise. \<open>emitReadBlock\<close> is a \<open>const\<close> member, so it returns the text only;
  \<open>emitWriteBlock\<close> is not, so it returns the handle too, which it leaves as it is (the
  header has no member that records pending work, and \<open>readSource\<close> must not change).
\<close>

datatype instruction =
  ReadBlock string string Vec3c Vec3c
| NoRead string Vec3c Vec3c
| WriteBlock string string Vec3c Vec3c Vec3c

definition emitReadBlock ::
  "(instruction \<Rightarrow> string) \<Rightarrow> Vec3c \<Rightarrow> Vec3c \<Rightarrow> bool \<Rightarrow> DistributedImageBase \<Rightarrow> string" where
  "emitReadBlock enc filePos blockSize dataNeeded h =
     (if dataNeeded then enc (ReadBlock (name h) (readSource h) filePos blockSize)
      else enc (NoRead (name h) filePos blockSize))"

definition emitWriteBlock ::
  "(instruction \<Rightarrow> string) \<Rightarrow> Vec3c \<Rightarrow> Vec3c \<Rightarrow> Vec3c \<Rightarrow> string option \<Rightarrow>
     DistributedImageBase \<Rightarrow> string \<times> DistributedImageBase" where
  "emitWriteBlock enc filePos imagePos blockSize outputFile h =
     (case outputFile of
        None \<Rightarrow> (enc (WriteBlock (name h) (writeTarget h) filePos imagePos blockSize), h)
      | Some f \<Rightarrow> (enc (WriteBlock (name h) f filePos imagePos blockSize), h))"

subsection \<open>The typed handle DistributedImage\<close>

text \<open>
  The typed constructors pass \<open>toString(imageDataType<pixel_t>())\<close> to the base class;
  that string is the parameter \<open>dts\<close>.
\<close>

definition DistributedImage_ctor ::
  "string \<Rightarrow> string \<Rightarrow> string \<Rightarrow> int \<Rightarrow> int \<Rightarrow> int \<Rightarrow> string \<Rightarrow> string \<Rightarrow> DistributedImageBase" where
  "DistributedImage_ctor t1 t2 nm w ht d dts filename =
     DistributedImageBase_ctor t1 t2 nm w ht d dts filename"

definition DistributedImage_ctor0 ::
  "string \<Rightarrow> string \<Rightarrow> string \<Rightarrow> int \<Rightarrow> int \<Rightarrow> int \<Rightarrow> string \<Rightarrow> DistributedImageBase" where
  "DistributedImage_ctor0 t1 t2 nm w ht d dts =
     DistributedImageBase_ctor0 t1 t2 nm w ht d dts"

text \<open>
  \<open>readTo\<close> resizes the buffer and, if the image is saved to disk, reads it with the
  codec chosen by the name of the read source. The result is the buffer, or the error
  of the codec.
\<close>

definition readTo ::
  "('p::zero) Image \<Rightarrow> DistributedImageBase \<Rightarrow> 'p disk \<Rightarrow> io_error + 'p Image" where
  "readTo img h dsk =
     (let img1 = Image_ensureSize (dimensions h) img in
      if isSavedToDisk h then
        (if endsWith (currentReadSource h) ''.raw''
         then raw_read img1 (currentReadSource h) dsk
         else sequence_read img1 (currentReadSource h) dsk)
      else Inr img1)"

text \<open>
  \<open>setData\<close> resizes the handle, writes the buffer to the write target with the codec
  chosen by the target's name, and completes the write. It returns the handle and the
  disk.
\<close>

definition setData ::
  "'p Image \<Rightarrow> DistributedImageBase \<Rightarrow> 'p disk \<Rightarrow> DistributedImageBase \<times> 'p disk" where
  "setData img h dsk =
     (let h1 = ensureSize (idims img) h;
          dsk1 = (if endsWith (currentWriteTarget h1) ''.raw''
                  then raw_write img (currentWriteTarget h1) dsk
                  else sequence_write img (currentWriteTarget h1) dsk)
      in (writeComplete h1, dsk1))"

text \<open>The file that \<open>setData\<close> writes: the write target at the time of the codec call.\<close>

definition setData_destination :: "'p Image \<Rightarrow> DistributedImageBase \<Rightarrow> string" where
  "setData_destination img h = currentWriteTarget (ensureSize (idims img) h)"

subsection \<open>Sequences of calls on one handle\<close>

text \<open>
  A caller drives a handle through its public members. A call takes the handle and the
  disk to the handle and the disk after it; the values the members return are dropped
  here.
\<close>

datatype 'p member_call =
  CallNewWriteTarget
| CallWriteComplete
| CallSetReadSource string
| CallEnsureSize Vec3c
| CallEmitReadBlock Vec3c Vec3c bool
| CallEmitWriteBlock Vec3c Vec3c Vec3c "string option"
| CallSetData "'p Image"
| CallReadTo "'p Image"

fun call ::
  "(instruction \<Rightarrow> string) \<Rightarrow> ('p::zero) member_call \<Rightarrow> DistributedImageBase \<times> 'p disk \<Rightarrow>
     DistributedImageBase \<times> 'p disk" where
  "call enc CallNewWriteTarget (h, dsk) = (newWriteTarget h, dsk)"
| "call enc CallWriteComplete (h, dsk) = (writeComplete h, dsk)"
| "call enc (CallSetReadSource f) (h, dsk) = (setReadSource f h, dsk)"
| "call enc (CallEnsureSize d) (h, dsk) = (ensureSize d h, dsk)"
| "call enc (CallEmitReadBlock p s dn) (h, dsk) = (h, dsk)"
| "call enc (CallEmitWriteBlock p q s out) (h, dsk) = (snd (emitWriteBlock enc p q s out h), dsk)"
| "call enc (CallSetData img) (h, dsk) = setData img h dsk"
| "call enc (CallReadTo img) (h, dsk) = (h, dsk)"

fun calls ::
  "(instruction \<Rightarrow> string) \<Rightarrow> ('p::zero) member_call list \<Rightarrow> DistributedImageBase \<times> 'p disk \<Rightarrow>
     DistributedImageBase \<times> 'p disk" where
  "calls enc [] s = s"
| "calls enc (c # cs) s = calls enc cs (call enc c s)"

text \<open>The other temp slot: the one \<open>newWriteTarget\<close> moves to from the given slot.\<close>

definition complement :: "DistributedImageBase \<Rightarrow> string \<Rightarrow> string" where
  "complement h slot = (if slot = tempFilename1 h then tempFilename2 h else tempFilename1 h)"

text \<open>
  The temp slots are the given pair and the write target is one of them: the property
  that the constructor sets up and the members keep.
\<close>

definition temp_inv :: "string \<Rightarrow> string \<Rightarrow> DistributedImageBase \<Rightarrow> bool" where
  "temp_inv t1 t2 h =
     (tempFilename1 h = t1 \<and> tempFilename2 h = t2 \<and> (writeTarget h = t1 \<or> writeTarget h = t2))"

subsection \<open>Example handles\<close>

text \<open>
  A handle constructed without a source, with the temp names \<open>a.raw\<close> and \<open>b.raw\<close>; the
  same handle after one promoted write; and the handle after a rotation, a promotion and
  another rotation, which reads the second slot and targets the first.
\<close>

definition fresh_handle :: DistributedImageBase where
  "fresh_handle = DistributedImageBase_ctor0 ''a.raw'' ''b.raw'' ''img'' 4 3 2 ''uint8''"

definition promoted_handle :: DistributedImageBase where
  "promoted_handle = writeComplete fresh_handle"

definition rotated_handle :: DistributedImageBase where
  "rotated_handle = newWriteTarget (writeComplete (newWriteTarget fresh_handle))"

text \<open>Two small buffers, and the state after \<open>setData\<close> of the first on an empty disk.\<close>

definition buffer1 :: "nat Image" where
  "buffer1 = \<lparr>idims = Vec3c 2 1 1, pixels = [1, 2]\<rparr>"

definition buffer2 :: "nat Image" where
  "buffer2 = \<lparr>idims = Vec3c 1 1 1, pixels = [7]\<rparr>"

definition once_set :: "DistributedImageBase \<times> nat disk" where
  "once_set = setData buffer1 fresh_handle Map.empty"

section \<open>Properties\<close>

subsection \<open>Stepping stones\<close>

text \<open>What the members do to the fields that the rotation protocol is about.\<close>

lemma writeComplete_sources:
  "readSource (writeComplete h) = writeTarget h"
  "writeTarget (writeComplete h) = writeTarget h"
  "tempFilename1 (writeComplete h) = tempFilename1 h"
  "tempFilename2 (writeComplete h) = tempFilename2 h"
  "isNewImage (writeComplete h) = (writeTarget h = [])"
  by (simp_all add: writeComplete_def setReadSource_def)

lemma ensureSize_fields:
  "dims (ensureSize d h) = d"
  "readSource (ensureSize d h) = readSource h"
  "writeTarget (ensureSize d h) = writeTarget h"
  "tempFilename1 (ensureSize d h) = tempFilename1 h"
  "tempFilename2 (ensureSize d h) = tempFilename2 h"
  "isNewImage (ensureSize d h) = isNewImage h"
  by (simp_all add: ensureSize_def)

lemma setData_handle:
  "fst (setData img h dsk) = writeComplete (ensureSize (idims img) h)"
  by (simp add: setData_def Let_def)

lemma setData_disk:
  "snd (setData img h dsk) =
     dsk(writeTarget h \<mapsto> (if endsWith (writeTarget h) ''.raw'' then RawFile img else SequenceDir img))"
  by (simp add: setData_def Let_def ensureSize_def currentWriteTarget_def raw_write_def
      sequence_write_def)

text \<open>The constructor sets \<open>temp_inv\<close> up and every member keeps it.\<close>

lemma ctor_temp_inv:
  "temp_inv t1 t2 (DistributedImageBase_ctor t1 t2 nm w ht d dts src)"
  by (simp add: temp_inv_def DistributedImageBase_ctor_def createTempFilenames_def
      setReadSource_def)

lemma call_temp_inv:
  "temp_inv t1 t2 (fst s) \<Longrightarrow> temp_inv t1 t2 (fst (call enc c s))"
  by (cases s; cases c)
     (auto simp add: temp_inv_def newWriteTarget_def writeComplete_def setReadSource_def
        ensureSize_def emitWriteBlock_def setData_def Let_def split: option.splits)

lemma calls_temp_inv:
  "temp_inv t1 t2 (fst s) \<Longrightarrow> temp_inv t1 t2 (fst (calls enc cs s))"
proof (induction cs arbitrary: s)
  case Nil
  then show ?case by simp
next
  case (Cons c cs)
  from Cons.prems have "temp_inv t1 t2 (fst (call enc c s))"
    by (rule call_temp_inv)
  then show ?case using Cons.IH by simp
qed

text \<open>
  A member call that finds the read source equal to the write target and leaves them
  different is \<open>newWriteTarget\<close> or \<open>setReadSource\<close>.
\<close>

lemma call_keeps_aliasing:
  assumes "readSource g = writeTarget g"
    and "readSource (fst (call enc c (g, dk))) \<noteq> writeTarget (fst (call enc c (g, dk)))"
  shows "c = CallNewWriteTarget \<or> (\<exists>f. c = CallSetReadSource f)"
  using assms
  by (cases c)
     (auto simp add: writeComplete_def setReadSource_def ensureSize_def emitWriteBlock_def
        setData_def Let_def split: option.splits)

text \<open>
  A handle that is saved to disk, whose read source holds a buffer stored by the codec
  that the name selects, reads that buffer back.
\<close>

lemma Image_ensureSize_idims: "idims (Image_ensureSize d img) = d"
  by (simp add: Image_ensureSize_def)

lemma readTo_after_write:
  assumes "isSavedToDisk h" and "dimensions h = idims buf"
    and "dsk (currentReadSource h) =
           Some (if endsWith (currentReadSource h) ''.raw'' then RawFile buf else SequenceDir buf)"
  shows "readTo out h dsk = Inr buf"
proof -
  have "(Image_ensureSize (idims buf) out)\<lparr>pixels := pixels buf\<rparr> = buf"
    by (simp add: Image_ensureSize_idims)
  then show ?thesis
    using assms by (simp add: readTo_def Let_def raw_read_def sequence_read_def
        Image_ensureSize_idims)
qed

subsection \<open>Rotation of the write target\<close>

text \<open>
  C1 fails as stated. \<open>writeComplete()\<close> does not move the write target: on the handle
  that one promoted write has left reading the first temp slot, the write target after
  another \<open>writeComplete()\<close> is that same slot, not its complement, and it equals the
  read source although the read source is a temp slot.
\<close>

theorem C1_writeComplete_counterexample:
  "savedToTemp promoted_handle
   \<and> writeTarget (writeComplete promoted_handle)
       \<noteq> complement promoted_handle (readSource promoted_handle)
   \<and> savedToTemp (writeComplete promoted_handle)
   \<and> currentWriteTarget (writeComplete promoted_handle)
       = currentReadSource (writeComplete promoted_handle)"
  by (simp add: promoted_handle_def fresh_handle_def DistributedImageBase_ctor0_def
      DistributedImageBase_ctor_def createTempFilenames_def setReadSource_def
      writeComplete_def complement_def savedToTemp_def currentReadSource_def
      currentWriteTarget_def)

text \<open>
  C1, amended. In every state that a sequence of member calls reaches from the
  constructor, \<open>writeTarget\<close> is exactly one of the two temp locations. \<open>writeComplete()\<close>
  leaves \<open>writeTarget\<close> as it is and sets \<open>readSource\<close> to it, so immediately after it
  \<open>currentWriteTarget() = currentReadSource()\<close>. It is \<open>newWriteTarget()\<close> that separates
  the two: called when \<open>readSource = writeTarget\<close> is a temp slot and the temp names
  differ, it makes \<open>currentWriteTarget()\<close> differ from \<open>currentReadSource()\<close>, and after the
  \<open>writeComplete()\<close> that follows, \<open>writeTarget\<close> is the complement of the temp slot that
  \<open>readSource\<close> held immediately before that \<open>writeComplete()\<close>.
\<close>

theorem C1_write_target_invariant:
  "(writeTarget (fst (calls enc cs (DistributedImageBase_ctor t1 t2 nm w ht d dts src, dsk))) = t1
      \<or> writeTarget (fst (calls enc cs (DistributedImageBase_ctor t1 t2 nm w ht d dts src, dsk))) = t2)
   \<and> tempFilename1 (fst (calls enc cs (DistributedImageBase_ctor t1 t2 nm w ht d dts src, dsk))) = t1
   \<and> tempFilename2 (fst (calls enc cs (DistributedImageBase_ctor t1 t2 nm w ht d dts src, dsk))) = t2
   \<and> writeTarget (writeComplete h) = writeTarget h
   \<and> readSource (writeComplete h) = writeTarget h
   \<and> currentWriteTarget (writeComplete h) = currentReadSource (writeComplete h)
   \<and> (tempFilename1 h \<noteq> tempFilename2 h
        \<and> (writeTarget h = tempFilename1 h \<or> writeTarget h = tempFilename2 h)
        \<and> readSource h = writeTarget h
      \<longrightarrow> currentWriteTarget (newWriteTarget h) \<noteq> currentReadSource (newWriteTarget h)
          \<and> writeTarget (writeComplete (newWriteTarget h))
              = complement h (readSource (newWriteTarget h)))"
proof -
  have "temp_inv t1 t2 (fst (DistributedImageBase_ctor t1 t2 nm w ht d dts src, dsk))"
    by (simp add: ctor_temp_inv)
  then have "temp_inv t1 t2
      (fst (calls enc cs (DistributedImageBase_ctor t1 t2 nm w ht d dts src, dsk)))"
    by (rule calls_temp_inv)
  then have reach:
    "(writeTarget (fst (calls enc cs (DistributedImageBase_ctor t1 t2 nm w ht d dts src, dsk))) = t1
      \<or> writeTarget (fst (calls enc cs (DistributedImageBase_ctor t1 t2 nm w ht d dts src, dsk))) = t2)
     \<and> tempFilename1 (fst (calls enc cs (DistributedImageBase_ctor t1 t2 nm w ht d dts src, dsk))) = t1
     \<and> tempFilename2 (fst (calls enc cs (DistributedImageBase_ctor t1 t2 nm w ht d dts src, dsk))) = t2"
    by (simp add: temp_inv_def)
  have promote: "writeTarget (writeComplete h) = writeTarget h
     \<and> readSource (writeComplete h) = writeTarget h
     \<and> currentWriteTarget (writeComplete h) = currentReadSource (writeComplete h)"
    by (simp add: writeComplete_sources currentReadSource_def currentWriteTarget_def)
  have rotate: "tempFilename1 h \<noteq> tempFilename2 h
        \<and> (writeTarget h = tempFilename1 h \<or> writeTarget h = tempFilename2 h)
        \<and> readSource h = writeTarget h
      \<longrightarrow> currentWriteTarget (newWriteTarget h) \<noteq> currentReadSource (newWriteTarget h)
          \<and> writeTarget (writeComplete (newWriteTarget h))
              = complement h (readSource (newWriteTarget h))"
    by (auto simp add: writeComplete_sources newWriteTarget_def complement_def
        currentReadSource_def currentWriteTarget_def)
  from reach promote rotate show ?thesis by blast
qed

theorem C1_write_target_invariant_witness:
  "writeTarget (fst (calls (\<lambda>i. []) [CallNewWriteTarget, CallSetData buffer1, CallNewWriteTarget,
       CallSetReadSource ''x.raw'', CallWriteComplete]
       (DistributedImageBase_ctor ''a.raw'' ''b.raw'' ''img'' 4 3 2 ''uint8'' ''in.raw'', Map.empty))) = ''a.raw''
   \<and> tempFilename1 promoted_handle \<noteq> tempFilename2 promoted_handle
   \<and> readSource promoted_handle = writeTarget promoted_handle
   \<and> currentWriteTarget (newWriteTarget promoted_handle)
       \<noteq> currentReadSource (newWriteTarget promoted_handle)
   \<and> writeTarget (writeComplete (newWriteTarget promoted_handle)) = ''b.raw''"
  using C1_write_target_invariant [of "\<lambda>i. []"
      "[CallNewWriteTarget, CallSetData buffer1, CallNewWriteTarget,
        CallSetReadSource ''x.raw'', CallWriteComplete]"
      "''a.raw''" "''b.raw''" "''img''" 4 3 2 "''uint8''" "''in.raw''" Map.empty promoted_handle]
  by (simp add: promoted_handle_def fresh_handle_def DistributedImageBase_ctor0_def
      DistributedImageBase_ctor_def createTempFilenames_def setReadSource_def
      writeComplete_def newWriteTarget_def complement_def currentReadSource_def
      currentWriteTarget_def setData_def ensureSize_def buffer1_def Let_def)

text \<open>
  C3 fails as stated: \<open>newWriteTarget()\<close> does not look at \<open>readSource\<close>. The handle that
  reads the second temp slot and targets the first has both members in temp slots, and
  the call moves the write target onto the read source.
\<close>

theorem C3_newWriteTarget_counterexample:
  "savedToTemp rotated_handle
   \<and> currentWriteTarget rotated_handle = tempFilename1 rotated_handle
   \<and> currentReadSource rotated_handle = tempFilename2 rotated_handle
   \<and> tempFilename1 rotated_handle \<noteq> tempFilename2 rotated_handle
   \<and> currentWriteTarget (newWriteTarget rotated_handle)
       = currentReadSource (newWriteTarget rotated_handle)"
  by (simp add: rotated_handle_def fresh_handle_def DistributedImageBase_ctor0_def
      DistributedImageBase_ctor_def createTempFilenames_def setReadSource_def
      writeComplete_def newWriteTarget_def savedToTemp_def currentReadSource_def
      currentWriteTarget_def)

text \<open>
  C3, amended. \<open>newWriteTarget()\<close> swaps \<open>writeTarget\<close> between the two temp slots by
  looking at \<open>writeTarget\<close> only: the new value is \<open>tempFilename2\<close> if \<open>writeTarget\<close> was
  \<open>tempFilename1\<close> and \<open>tempFilename1\<close> otherwise, for every \<open>readSource\<close> (a temp slot or an
  external file), and \<open>readSource\<close> stays as it is. After the call the write target
  equals the read source exactly when the read source is the selected slot; so the two
  differ when, before the call, \<open>readSource\<close> equalled \<open>writeTarget\<close> (the state that
  \<open>writeComplete()\<close> leaves), \<open>writeTarget\<close> was a temp slot and the two temp names differ.
\<close>

theorem C3_newWriteTarget_swaps:
  "writeTarget (newWriteTarget h)
     = (if writeTarget h = tempFilename1 h then tempFilename2 h else tempFilename1 h)
   \<and> (writeTarget (newWriteTarget h) = tempFilename1 h
        \<or> writeTarget (newWriteTarget h) = tempFilename2 h)
   \<and> readSource (newWriteTarget h) = readSource h
   \<and> ((currentWriteTarget (newWriteTarget h) = currentReadSource (newWriteTarget h))
        = (readSource h = complement h (writeTarget h)))
   \<and> (tempFilename1 h \<noteq> tempFilename2 h
        \<and> (writeTarget h = tempFilename1 h \<or> writeTarget h = tempFilename2 h)
        \<and> readSource h = writeTarget h
      \<longrightarrow> currentWriteTarget (newWriteTarget h) \<noteq> currentReadSource (newWriteTarget h))"
  by (auto simp add: newWriteTarget_def complement_def currentReadSource_def
      currentWriteTarget_def)

theorem C3_newWriteTarget_swaps_witness:
  "tempFilename1 promoted_handle \<noteq> tempFilename2 promoted_handle
   \<and> writeTarget promoted_handle = tempFilename1 promoted_handle
   \<and> readSource promoted_handle = writeTarget promoted_handle
   \<and> writeTarget (newWriteTarget promoted_handle) = ''b.raw''
   \<and> currentWriteTarget (newWriteTarget promoted_handle)
       \<noteq> currentReadSource (newWriteTarget promoted_handle)"
  using C3_newWriteTarget_swaps [of promoted_handle]
  by (simp add: promoted_handle_def fresh_handle_def DistributedImageBase_ctor0_def
      DistributedImageBase_ctor_def createTempFilenames_def setReadSource_def
      writeComplete_def newWriteTarget_def complement_def currentReadSource_def
      currentWriteTarget_def)

text \<open>
  C4. In every state in which \<open>writeTarget\<close> is one of the two temp slots, the first
  \<open>newWriteTarget()\<close> yields the complement of the value before the call, the second
  restores the original value (A to B to A), and the two calls together change no
  member of the handle at all.
\<close>

theorem C4_newWriteTarget_twice:
  assumes "writeTarget h = tempFilename1 h \<or> writeTarget h = tempFilename2 h"
  shows "writeTarget (newWriteTarget h) = complement h (writeTarget h)
       \<and> writeTarget (newWriteTarget (newWriteTarget h)) = writeTarget h
       \<and> newWriteTarget (newWriteTarget h) = h"
  using assms by (auto simp add: newWriteTarget_def complement_def)

theorem C4_newWriteTarget_twice_witness:
  "writeTarget (newWriteTarget (DistributedImageBase_ctor0 ''a.raw'' ''b.raw'' ''img'' 4 3 2 ''uint8''))
     = ''b.raw''
   \<and> writeTarget (newWriteTarget (newWriteTarget
        (DistributedImageBase_ctor0 ''a.raw'' ''b.raw'' ''img'' 4 3 2 ''uint8''))) = ''a.raw''"
  using C4_newWriteTarget_twice
    [of "DistributedImageBase_ctor0 ''a.raw'' ''b.raw'' ''img'' 4 3 2 ''uint8''"]
  by (simp add: DistributedImageBase_ctor0_def DistributedImageBase_ctor_def
      createTempFilenames_def setReadSource_def complement_def)

text \<open>
  C9 fails as stated in its last part. After \<open>writeComplete()\<close> the read source equals
  the write target, but \<open>newWriteTarget()\<close> is not the only member that separates them
  again: the public member \<open>setReadSource\<close>, called with another path, does so too.
\<close>

theorem C9_setReadSource_counterexample:
  "currentReadSource (writeComplete fresh_handle) = currentWriteTarget (writeComplete fresh_handle)
   \<and> currentReadSource (setReadSource ''in.raw'' (writeComplete fresh_handle))
       \<noteq> currentWriteTarget (setReadSource ''in.raw'' (writeComplete fresh_handle))"
  by (simp add: fresh_handle_def DistributedImageBase_ctor0_def DistributedImageBase_ctor_def
      createTempFilenames_def setReadSource_def writeComplete_def currentReadSource_def
      currentWriteTarget_def)

text \<open>
  C9, amended. Immediately after every \<open>writeComplete()\<close>, and so at the end of every
  \<open>setData\<close>, which does not rotate the write target, \<open>currentReadSource()\<close> equals
  \<open>currentWriteTarget()\<close>. A member call that finds the two equal and leaves them
  different is \<open>newWriteTarget()\<close> or \<open>setReadSource\<close>; every other member keeps them
  equal. After \<open>writeComplete()\<close>, \<open>newWriteTarget()\<close> makes them differ exactly when the
  slot it selects is not the current write target, so whenever the write target is a temp
  slot and the two temp names differ; \<open>setReadSource(f)\<close> makes them differ exactly when
  \<open>f\<close> is not the write target.
\<close>

theorem C9_aliasing_after_promotion:
  "currentReadSource (writeComplete h) = currentWriteTarget (writeComplete h)
   \<and> currentReadSource (fst (setData img h dsk)) = currentWriteTarget (fst (setData img h dsk))
   \<and> currentWriteTarget (fst (setData img h dsk)) = currentWriteTarget h
   \<and> currentWriteTarget (writeComplete h) = currentWriteTarget h
   \<and> (currentReadSource g = currentWriteTarget g
        \<and> currentReadSource (fst (call enc c (g, dk))) \<noteq> currentWriteTarget (fst (call enc c (g, dk)))
      \<longrightarrow> c = CallNewWriteTarget \<or> (\<exists>f. c = CallSetReadSource f))
   \<and> ((currentReadSource (newWriteTarget (writeComplete h))
          = currentWriteTarget (newWriteTarget (writeComplete h)))
        = (complement h (writeTarget h) = writeTarget h))
   \<and> (tempFilename1 h \<noteq> tempFilename2 h
        \<and> (writeTarget h = tempFilename1 h \<or> writeTarget h = tempFilename2 h)
      \<longrightarrow> currentReadSource (newWriteTarget (writeComplete h))
            \<noteq> currentWriteTarget (newWriteTarget (writeComplete h))
          \<and> currentReadSource (newWriteTarget (fst (setData img h dsk)))
            \<noteq> currentWriteTarget (newWriteTarget (fst (setData img h dsk))))
   \<and> ((currentReadSource (setReadSource f (writeComplete h))
          = currentWriteTarget (setReadSource f (writeComplete h)))
        = (f = writeTarget h))"
proof -
  have promote:
    "currentReadSource (writeComplete h) = currentWriteTarget (writeComplete h)
     \<and> currentReadSource (fst (setData img h dsk)) = currentWriteTarget (fst (setData img h dsk))
     \<and> currentWriteTarget (fst (setData img h dsk)) = currentWriteTarget h
     \<and> currentWriteTarget (writeComplete h) = currentWriteTarget h"
    by (simp add: setData_handle writeComplete_sources ensureSize_fields
        currentReadSource_def currentWriteTarget_def)
  have only: "currentReadSource g = currentWriteTarget g
        \<and> currentReadSource (fst (call enc c (g, dk))) \<noteq> currentWriteTarget (fst (call enc c (g, dk)))
      \<longrightarrow> c = CallNewWriteTarget \<or> (\<exists>f. c = CallSetReadSource f)"
    unfolding currentReadSource_def currentWriteTarget_def
    using call_keeps_aliasing [of g enc c dk] by blast
  have rotate_iff: "(currentReadSource (newWriteTarget (writeComplete h))
          = currentWriteTarget (newWriteTarget (writeComplete h)))
        = (complement h (writeTarget h) = writeTarget h)"
    by (auto simp add: writeComplete_def setReadSource_def newWriteTarget_def complement_def
        currentReadSource_def currentWriteTarget_def)
  have rotate: "tempFilename1 h \<noteq> tempFilename2 h
        \<and> (writeTarget h = tempFilename1 h \<or> writeTarget h = tempFilename2 h)
      \<longrightarrow> currentReadSource (newWriteTarget (writeComplete h))
            \<noteq> currentWriteTarget (newWriteTarget (writeComplete h))
          \<and> currentReadSource (newWriteTarget (fst (setData img h dsk)))
            \<noteq> currentWriteTarget (newWriteTarget (fst (setData img h dsk)))"
    by (auto simp add: setData_handle writeComplete_def setReadSource_def ensureSize_def
        newWriteTarget_def currentReadSource_def currentWriteTarget_def)
  have rebind: "(currentReadSource (setReadSource f (writeComplete h))
          = currentWriteTarget (setReadSource f (writeComplete h)))
        = (f = writeTarget h)"
    by (simp add: writeComplete_def setReadSource_def currentReadSource_def
        currentWriteTarget_def)
  from promote only rotate_iff rotate rebind show ?thesis by blast
qed

theorem C9_aliasing_after_promotion_witness:
  "currentReadSource (writeComplete fresh_handle) = ''a.raw''
   \<and> currentWriteTarget (writeComplete fresh_handle) = ''a.raw''
   \<and> currentReadSource (newWriteTarget (writeComplete fresh_handle)) = ''a.raw''
   \<and> currentWriteTarget (newWriteTarget (writeComplete fresh_handle)) = ''b.raw''
   \<and> currentReadSource (writeComplete fresh_handle) = currentWriteTarget (writeComplete fresh_handle)
   \<and> currentReadSource (fst (call (\<lambda>i. []) (CallNewWriteTarget :: nat member_call)
         (writeComplete fresh_handle, Map.empty)))
       \<noteq> currentWriteTarget (fst (call (\<lambda>i. []) (CallNewWriteTarget :: nat member_call)
         (writeComplete fresh_handle, Map.empty)))
   \<and> currentReadSource (setReadSource ''in.raw'' (writeComplete fresh_handle))
       \<noteq> currentWriteTarget (setReadSource ''in.raw'' (writeComplete fresh_handle))"
  using C9_aliasing_after_promotion [of fresh_handle buffer1 Map.empty
      "writeComplete fresh_handle" "\<lambda>i. []" "CallNewWriteTarget :: nat member_call" Map.empty
      "''in.raw''"]
  by (simp add: fresh_handle_def DistributedImageBase_ctor0_def DistributedImageBase_ctor_def
      createTempFilenames_def setReadSource_def writeComplete_def newWriteTarget_def
      currentReadSource_def currentWriteTarget_def complement_def)

subsection \<open>Whole-image transfers\<close>

text \<open>
  C2 fails as stated: its two halves exclude each other. After two \<open>setData\<close> calls on a
  fresh handle the read source is the very file that the second call wrote, which is the
  write target that the second call used.
\<close>

theorem C2_setData_twice_counterexample:
  "currentReadSource (fst (setData buffer2 (fst once_set) (snd once_set)))
     = setData_destination buffer2 (fst once_set)"
  by (simp add: once_set_def fresh_handle_def setData_handle setData_destination_def
      writeComplete_sources ensureSize_fields currentReadSource_def currentWriteTarget_def
      DistributedImageBase_ctor0_def DistributedImageBase_ctor_def createTempFilenames_def
      setReadSource_def)

text \<open>
  C2, amended. After \<open>setData\<close> is called twice in sequence, the read source observed
  after the second call equals exactly the file written by the second call, which holds
  the second buffer; that file is the write target used as the destination during the
  second call. \<open>setData\<close> does not rotate the write target: both calls write the same
  location, and it is still the write target afterwards.
\<close>

theorem C2_setData_twice:
  "currentReadSource (fst (setData img2 (fst (setData img1 h dsk)) (snd (setData img1 h dsk))))
     = setData_destination img2 (fst (setData img1 h dsk))
   \<and> snd (setData img2 (fst (setData img1 h dsk)) (snd (setData img1 h dsk)))
        (currentReadSource
           (fst (setData img2 (fst (setData img1 h dsk)) (snd (setData img1 h dsk)))))
     = Some (if endsWith (setData_destination img2 (fst (setData img1 h dsk))) ''.raw''
             then RawFile img2 else SequenceDir img2)
   \<and> setData_destination img2 (fst (setData img1 h dsk)) = setData_destination img1 h
   \<and> currentWriteTarget (fst (setData img2 (fst (setData img1 h dsk)) (snd (setData img1 h dsk))))
     = setData_destination img2 (fst (setData img1 h dsk))"
  by (simp add: setData_handle setData_disk setData_destination_def writeComplete_sources
      ensureSize_fields currentReadSource_def currentWriteTarget_def)

text \<open>
  C5. For a typed handle constructed with no source file, whose first temp name is not
  empty, for every buffer and every output buffer, \<open>setData(buf)\<close> followed by
  \<open>readTo(out)\<close> yields \<open>out = buf\<close>, dimensions and contents, with no codec error. The
  temp name is arbitrary, so the statement covers the raw format (the name ends with
  \<open>.raw\<close>) and the sequence format (any other name); the disk holds the buffer in the
  format that the name selects.
\<close>

theorem C5_setData_readTo_roundtrip:
  assumes "t1 \<noteq> []"
  shows "readTo out (fst (setData buf (DistributedImage_ctor0 t1 t2 nm w ht d dts) dsk))
             (snd (setData buf (DistributedImage_ctor0 t1 t2 nm w ht d dts) dsk)) = Inr buf
       \<and> snd (setData buf (DistributedImage_ctor0 t1 t2 nm w ht d dts) dsk) t1
           = Some (if endsWith t1 ''.raw'' then RawFile buf else SequenceDir buf)"
proof -
  let ?h0 = "DistributedImage_ctor0 t1 t2 nm w ht d dts"
  have wt: "writeTarget ?h0 = t1"
    by (simp add: DistributedImage_ctor0_def DistributedImageBase_ctor0_def
        DistributedImageBase_ctor_def createTempFilenames_def setReadSource_def)
  have saved: "isSavedToDisk (fst (setData buf ?h0 dsk))"
    using assms wt
    by (simp add: isSavedToDisk_def setData_handle writeComplete_sources ensureSize_fields)
  have dm: "dimensions (fst (setData buf ?h0 dsk)) = idims buf"
    by (simp add: dimensions_def setData_handle writeComplete_def setReadSource_def
        ensureSize_def)
  have rs: "currentReadSource (fst (setData buf ?h0 dsk)) = t1"
    using wt
    by (simp add: currentReadSource_def setData_handle writeComplete_sources ensureSize_fields)
  have stored: "snd (setData buf ?h0 dsk) t1
      = Some (if endsWith t1 ''.raw'' then RawFile buf else SequenceDir buf)"
    using wt by (simp add: setData_disk)
  have "readTo out (fst (setData buf ?h0 dsk)) (snd (setData buf ?h0 dsk)) = Inr buf"
    using saved dm stored rs by (intro readTo_after_write) simp_all
  with stored show ?thesis by simp
qed

theorem C5_setData_readTo_roundtrip_witness:
  "readTo \<lparr>idims = Vec3c 9 9 9, pixels = []\<rparr>
      (fst (setData buffer1 (DistributedImage_ctor0 ''a.raw'' ''b.raw'' ''img'' 4 3 2 ''uint8'') Map.empty))
      (snd (setData buffer1 (DistributedImage_ctor0 ''a.raw'' ''b.raw'' ''img'' 4 3 2 ''uint8'') Map.empty))
     = Inr buffer1
   \<and> snd (setData buffer1 (DistributedImage_ctor0 ''a.raw'' ''b.raw'' ''img'' 4 3 2 ''uint8'') Map.empty)
        ''a.raw'' = Some (RawFile buffer1)
   \<and> readTo \<lparr>idims = Vec3c 9 9 9, pixels = []\<rparr>
      (fst (setData buffer1 (DistributedImage_ctor0 ''a'' ''b'' ''img'' 4 3 2 ''uint8'') Map.empty))
      (snd (setData buffer1 (DistributedImage_ctor0 ''a'' ''b'' ''img'' 4 3 2 ''uint8'') Map.empty))
     = Inr buffer1
   \<and> snd (setData buffer1 (DistributedImage_ctor0 ''a'' ''b'' ''img'' 4 3 2 ''uint8'') Map.empty)
        ''a'' = Some (SequenceDir buffer1)"
  using C5_setData_readTo_roundtrip [of "''a.raw''" "\<lparr>idims = Vec3c 9 9 9, pixels = []\<rparr>"
      buffer1 "''b.raw''" "''img''" 4 3 2 "''uint8''" Map.empty]
    C5_setData_readTo_roundtrip [of "''a''" "\<lparr>idims = Vec3c 9 9 9, pixels = []\<rparr>"
      buffer1 "''b''" "''img''" 4 3 2 "''uint8''" Map.empty]
  by (simp add: endsWith_def)

text \<open>
  C6. \<open>setData(buffer)\<close> resizes the handle to the buffer's dimensions, writes the buffer
  to the current write target, with the raw codec if and only if the name ends with
  \<open>.raw\<close> and with the sequence codec otherwise, and then completes the write: the
  handle is the one that \<open>writeComplete()\<close> returns on the resized handle, and afterwards
  \<open>currentReadSource()\<close> is the file that was just written.
\<close>

theorem C6_setData_steps:
  "fst (setData img h dsk) = writeComplete (ensureSize (idims img) h)
   \<and> dimensions (fst (setData img h dsk)) = idims img
   \<and> snd (setData img h dsk)
       = (if endsWith (currentWriteTarget h) ''.raw''
          then raw_write img (currentWriteTarget h) dsk
          else sequence_write img (currentWriteTarget h) dsk)
   \<and> (snd (setData img h dsk) (currentWriteTarget h) = Some (RawFile img))
       = endsWith (currentWriteTarget h) ''.raw''
   \<and> (snd (setData img h dsk) (currentWriteTarget h) = Some (SequenceDir img))
       = (\<not> endsWith (currentWriteTarget h) ''.raw'')
   \<and> setData_destination img h = currentWriteTarget h
   \<and> currentReadSource (fst (setData img h dsk)) = setData_destination img h
   \<and> currentReadSource (fst (setData img h dsk)) = currentWriteTarget (fst (setData img h dsk))"
  by (simp add: setData_handle setData_disk setData_destination_def writeComplete_sources
      ensureSize_fields currentReadSource_def currentWriteTarget_def dimensions_def
      raw_write_def sequence_write_def writeComplete_def setReadSource_def ensureSize_def)

subsection \<open>The saved-to-disk flag\<close>

text \<open>
  C7. \<open>isSavedToDisk()\<close> is the negation of \<open>isNewImage\<close>. It is false immediately after
  construction without a source file, and still false after a block-write instruction
  has been emitted. It is true after one completed write, be it \<open>setData\<close> or an emitted
  block write followed by \<open>writeComplete()\<close>, given that the temp name is not empty,
  because \<open>setReadSource\<close> clears \<open>isNewImage\<close> when it binds a non-empty path.
\<close>

theorem C7_isSavedToDisk:
  assumes "t1 \<noteq> []" and "f \<noteq> []"
  shows "isSavedToDisk h = (\<not> isNewImage h)
       \<and> \<not> isSavedToDisk (DistributedImage_ctor0 t1 t2 nm w ht d dts)
       \<and> isSavedToDisk (fst (setData img (DistributedImage_ctor0 t1 t2 nm w ht d dts) dsk))
       \<and> \<not> isSavedToDisk (snd (emitWriteBlock enc p q s None (DistributedImage_ctor0 t1 t2 nm w ht d dts)))
       \<and> isSavedToDisk (writeComplete
            (snd (emitWriteBlock enc p q s None (DistributedImage_ctor0 t1 t2 nm w ht d dts))))
       \<and> \<not> isNewImage (setReadSource f h)"
  using assms
  by (simp add: isSavedToDisk_def DistributedImage_ctor0_def DistributedImageBase_ctor0_def
      DistributedImageBase_ctor_def createTempFilenames_def setReadSource_def setData_handle
      writeComplete_def ensureSize_def emitWriteBlock_def)

theorem C7_isSavedToDisk_witness:
  "\<not> isSavedToDisk fresh_handle
   \<and> isSavedToDisk (fst (setData buffer1 fresh_handle Map.empty))
   \<and> isSavedToDisk (writeComplete (snd (emitWriteBlock (\<lambda>i. []) (Vec3c 0 0 0) (Vec3c 0 0 0)
        (Vec3c 2 2 2) None fresh_handle)))
   \<and> \<not> isNewImage (setReadSource ''in.raw'' fresh_handle)"
  using C7_isSavedToDisk [of "''a.raw''" "''in.raw''" fresh_handle "''b.raw''" "''img''" 4 3 2
      "''uint8''" buffer1 Map.empty "\<lambda>i. []" "Vec3c 0 0 0" "Vec3c 0 0 0" "Vec3c 2 2 2"]
  by (simp add: fresh_handle_def DistributedImage_ctor0_def isSavedToDisk_def)

subsection \<open>Read instructions\<close>

text \<open>
  C8. \<open>emitReadBlock(filePos, blockSize, dataNeeded)\<close> returns the same instruction text
  for the same arguments on any two states of a handle that agree on the read source
  (and on the name, which no member changes), whatever the other members hold; and the
  call changes no member of the handle.
\<close>

theorem C8_emitReadBlock_frame:
  assumes "name h = name h'" and "readSource h = readSource h'"
  shows "emitReadBlock enc filePos blockSize dataNeeded h
           = emitReadBlock enc filePos blockSize dataNeeded h'
       \<and> call enc (CallEmitReadBlock filePos blockSize dataNeeded) (h, dsk) = (h, dsk)"
  using assms by (simp add: emitReadBlock_def)

theorem C8_emitReadBlock_frame_witness:
  "emitReadBlock (\<lambda>i. case i of ReadBlock n f p s \<Rightarrow> n @ '':'' @ f | NoRead n p s \<Rightarrow> n
                     | WriteBlock n f p q s \<Rightarrow> f)
      (Vec3c 0 0 0) (Vec3c 2 2 2) True promoted_handle
   = emitReadBlock (\<lambda>i. case i of ReadBlock n f p s \<Rightarrow> n @ '':'' @ f | NoRead n p s \<Rightarrow> n
                     | WriteBlock n f p q s \<Rightarrow> f)
      (Vec3c 0 0 0) (Vec3c 2 2 2) True (newWriteTarget promoted_handle)
   \<and> emitReadBlock (\<lambda>i. case i of ReadBlock n f p s \<Rightarrow> n @ '':'' @ f | NoRead n p s \<Rightarrow> n
                     | WriteBlock n f p q s \<Rightarrow> f)
      (Vec3c 0 0 0) (Vec3c 2 2 2) True promoted_handle = ''img:a.raw''"
  using C8_emitReadBlock_frame [of promoted_handle "newWriteTarget promoted_handle"
      "\<lambda>i. case i of ReadBlock n f p s \<Rightarrow> n @ '':'' @ f | NoRead n p s \<Rightarrow> n
                     | WriteBlock n f p q s \<Rightarrow> f" "Vec3c 0 0 0" "Vec3c 2 2 2" True]
  by (simp add: newWriteTarget_def emitReadBlock_def promoted_handle_def fresh_handle_def
      DistributedImageBase_ctor0_def DistributedImageBase_ctor_def createTempFilenames_def
      setReadSource_def writeComplete_def)

subsection \<open>Format queries\<close>

text \<open>
  C10. For every handle whose \<open>currentReadSource()\<close> is the empty string, \<open>isRaw()\<close> is
  false and \<open>isSequence()\<close> is true; a handle constructed without a source file is such
  a handle.
\<close>

theorem C10_empty_source_is_sequence:
  "(currentReadSource h = [] \<longrightarrow> \<not> isRaw h \<and> isSequence h)
   \<and> currentReadSource (DistributedImage_ctor0 t1 t2 nm w ht d dts) = []
   \<and> \<not> isRaw (DistributedImage_ctor0 t1 t2 nm w ht d dts)
   \<and> isSequence (DistributedImage_ctor0 t1 t2 nm w ht d dts)"
  by (simp add: isRaw_def isSequence_def endsWith_def currentReadSource_def
      DistributedImage_ctor0_def DistributedImageBase_ctor0_def DistributedImageBase_ctor_def
      createTempFilenames_def setReadSource_def)

theorem C10_empty_source_is_sequence_witness:
  "currentReadSource fresh_handle = [] \<and> \<not> isRaw fresh_handle \<and> isSequence fresh_handle"
  using C10_empty_source_is_sequence [of fresh_handle]
  by (simp add: fresh_handle_def currentReadSource_def DistributedImageBase_ctor0_def
      DistributedImageBase_ctor_def createTempFilenames_def setReadSource_def)

end
